theory Spec2Isabelle
  imports Main
begin

section \<open>Margie's Travel search front end (app.py)\<close>

text \<open>
  A shallow embedding of \<^verbatim>\<open>01-azure-search/margies-travel/app.py\<close>: the module
  initialisation that reads three environment variables, the wrapper
  \<^verbatim>\<open>search_query\<close> around the remote search client, and the Flask handler
  \<^verbatim>\<open>search\<close> of the route \<^verbatim>\<open>/search\<close>.

  Python strings are modelled as \<^typ>\<open>string\<close>, one \<^typ>\<open>char\<close> per code point
  below 256. The remote search service is a parameter of the model: a function from the
  arguments of one \<^verbatim>\<open>SearchClient.search\<close> call to either the exception that call
  raises or the result object it returns. The result object is opaque to the code and is
  consumed lazily, by the template that receives it. What the program does to the outside
  world (remote calls issued, lines printed) is threaded through explicitly as a
  \<open>world\<close> record.

  The code is translated twice. The first translation (\<open>search_query\<close>, \<open>search_body\<close>,
  \<open>search\<close>) takes every template to render and every line to be printed; it is the one
  used for what the handler computes from the query parameters and sends to the gateway.
  The second (\<open>search_query_io\<close>, \<open>search_body_io\<close>, \<open>search_io\<close>) lets the client call,
  the rendering of a template and \<^verbatim>\<open>print\<close> raise, and is the one used for how
  exceptions travel. \<open>search_io_well_behaved\<close> shows that the first is the second when
  nothing outside fails.
\<close>

subsection \<open>Exceptions\<close>

text \<open>
  An instance of a subclass of Python's \<^verbatim>\<open>Exception\<close> (what
  \<^verbatim>\<open>except Exception\<close> catches): its class name and its message, the text that
  \<^verbatim>\<open>str(ex)\<close> and an f-string give for it.
\<close>

datatype exn = Exn (exn_class: string) (exn_message: string)

definition str :: "exn \<Rightarrow> string" where
  "str ex = exn_message ex"

subsection \<open>Strings\<close>

text \<open>The apostrophe, written by its code.\<close>

definition apostrophe :: char where
  "apostrophe = CHR 0x27"

text \<open>
  \<^verbatim>\<open>str.isspace\<close> on one character, for the code points below 256: tab, line feed,
  vertical tab, form feed, carriage return, the four separators 0x1C to 0x1F, space, NEL
  (0x85) and the no-break space (0xA0).
\<close>

definition py_isspace :: "char \<Rightarrow> bool" where
  "py_isspace c = ((of_char c :: nat) \<in> set [9, 10, 11, 12, 13, 28, 29, 30, 31, 32, 133, 160])"

text \<open>\<^verbatim>\<open>s.strip()\<close>: leading and trailing whitespace removed.\<close>

definition strip :: "string \<Rightarrow> string" where
  "strip s = rev (dropWhile py_isspace (rev (dropWhile py_isspace s)))"

subsection \<open>Query parameters\<close>

text \<open>
  \<^verbatim>\<open>request.args\<close> is a multi-dictionary: the pairs of the query string in order,
  where a lookup returns the first value stored under the key.
\<close>

type_synonym args = "(string \<times> string) list"

text \<open>\<^verbatim>\<open>request.args.get(key, default)\<close>\<close>

definition args_get :: "args \<Rightarrow> string \<Rightarrow> string \<Rightarrow> string" where
  "args_get a key dflt = (case map_of a key of None \<Rightarrow> dflt | Some v \<Rightarrow> v)"

subsection \<open>Configuration read at import time\<close>

text \<open>
  The three module globals, each holding what \<^verbatim>\<open>os.getenv\<close> returned: \<open>None\<close>
  for an unset variable.
\<close>

record config =
  search_endpoint :: "string option"
  search_key :: "string option"
  search_index :: "string option"

text \<open>Python truthiness of an optional string: \<open>None\<close> and the empty string are false.\<close>

definition truthy :: "string option \<Rightarrow> bool" where
  "truthy v = (case v of None \<Rightarrow> False | Some s \<Rightarrow> s \<noteq> [])"

text \<open>
  Lines 14 to 20: the module body. \<open>getenv\<close> is the process environment after
  \<^verbatim>\<open>load_dotenv()\<close>. \<open>Inl\<close> is the \<^verbatim>\<open>ValueError\<close> that aborts the import.
\<close>

definition module_init :: "(string \<rightharpoonup> string) \<Rightarrow> exn + config" where
  "module_init getenv =
     (let endpoint = getenv ''SEARCH_SERVICE_ENDPOINT'';
          key = getenv ''SEARCH_SERVICE_QUERY_KEY'';
          index = getenv ''SEARCH_INDEX_NAME''
      in if \<not> list_all truthy [endpoint, key, index]
         then Inl (Exn ''ValueError'' ''Missing required environment variables in .env file.'')
         else Inr \<lparr>search_endpoint = endpoint, search_key = key, search_index = index\<rparr>)"

subsection \<open>The outside world\<close>

text \<open>
  One call of \<^verbatim>\<open>SearchClient(endpoint, index, AzureKeyCredential(key)).search(...)\<close>:
  the three constructor arguments, the positional search text and the keyword arguments.
\<close>

record search_call =
  call_endpoint :: "string option"
  call_index :: "string option"
  call_key :: "string option"
  call_search_text :: string
  call_search_mode :: string
  call_include_total_count :: bool
  call_filter :: "string option"
  call_order_by :: "string option"
  call_facets :: "string list"
  call_highlight_fields :: string
  call_select :: string

record world =
  remote_calls :: "search_call list"
  stdout :: "string list"

text \<open>The remote calls a run has added to the world it started from.\<close>

definition new_calls :: "world \<Rightarrow> 'a \<times> world \<Rightarrow> search_call list" where
  "new_calls w r = drop (length (remote_calls w)) (remote_calls (snd r))"

subsection \<open>The search gateway\<close>

text \<open>
  \<^verbatim>\<open>search_query(search_text, filter_by=None, sort_order=None)\<close>, lines 23 to 56.
  The client is built and queried inside the \<^verbatim>\<open>try\<close>; the handler of
  \<^verbatim>\<open>except Exception as ex\<close> prints a line and re-raises with a bare
  \<^verbatim>\<open>raise\<close>.
\<close>

definition search_query ::
  "config \<Rightarrow> (search_call \<Rightarrow> exn + 'r) \<Rightarrow> string \<Rightarrow> string option \<Rightarrow> string option \<Rightarrow>
   world \<Rightarrow> (exn + 'r) \<times> world" where
  "search_query cfg remote search_text filter_by sort_order w =
     (let call = \<lparr>call_endpoint = search_endpoint cfg,
                  call_index = search_index cfg,
                  call_key = search_key cfg,
                  call_search_text = search_text,
                  call_search_mode = ''all'',
                  call_include_total_count = True,
                  call_filter = filter_by,
                  call_order_by = sort_order,
                  call_facets = [''metadata_author''],
                  call_highlight_fields = ''merged_content-3,imageCaption-3'',
                  call_select =
                    ''metadata_storage_name,metadata_author,metadata_storage_size,'' @
                    ''metadata_storage_last_modified,language,merged_content,'' @
                    ''keyphrases,locations,imageTags,imageCaption, sentiment''\<rparr>;
          w1 = w\<lparr>remote_calls := remote_calls w @ [call]\<rparr>
      in case remote call of
           Inr results \<Rightarrow> (Inr results, w1)
         | Inl ex \<Rightarrow>
             (Inl ex, w1\<lparr>stdout := stdout w1 @ [''Error querying Azure Search: '' @ str ex]\<rparr>))"

subsection \<open>Rendered pages\<close>

text \<open>
  \<^verbatim>\<open>render_template(name, **context)\<close>: the template's name and the context
  passed to it. A context value is a string or the result object of the remote service.
  \<open>render_template\<close> is the page when the template renders; the call that can raise is
  \<open>render_template_io\<close> below.
\<close>

datatype 'r tvalue = TStr string | TResults 'r

datatype 'r page = Rendered (page_template: string) (page_context: "(string \<times> 'r tvalue) list")

definition render_template :: "string \<Rightarrow> (string \<times> 'r tvalue) list \<Rightarrow> 'r page" where
  "render_template name ctx = Rendered name ctx"

subsection \<open>The handler of /search\<close>

text \<open>
  Lines 73 to 99: the body of the \<^verbatim>\<open>try\<close> block. \<open>Inl\<close> is an exception
  leaving the block. The test \<^verbatim>\<open>'facet' in request.args\<close> followed by
  \<^verbatim>\<open>request.args['facet']\<close> is one lookup of the key.
\<close>

definition search_body ::
  "config \<Rightarrow> (search_call \<Rightarrow> exn + 'r) \<Rightarrow> args \<Rightarrow> world \<Rightarrow> (exn + 'r page) \<times> world" where
  "search_body cfg remote a w =
     (let search_text = strip (args_get a ''search'' '''')
      in if search_text = []
         then (Inr (render_template ''error.html''
                      [(''error_message'', TStr ''Search term cannot be empty.'')]), w)
         else
           let filter_expression =
                 (case map_of a ''facet'' of
                    None \<Rightarrow> None
                  | Some facet \<Rightarrow>
                      Some (''metadata_author eq '' @ [apostrophe] @ facet @ [apostrophe]));
               sort_field = args_get a ''sort'' ''relevance'';
               sort_expression =
                 (if sort_field = ''file_name'' then ''metadata_storage_name asc''
                  else if sort_field = ''size'' then ''metadata_storage_size desc''
                  else if sort_field = ''date'' then ''metadata_storage_last_modified desc''
                  else if sort_field = ''sentiment'' then ''sentiment desc''
                  else ''search.score()'')
           in case search_query cfg remote search_text filter_expression
                     (Some sort_expression) w of
                (Inl ex, w') \<Rightarrow> (Inl ex, w')
              | (Inr results, w') \<Rightarrow>
                  (Inr (render_template ''search.html''
                          [(''search_results'', TResults results),
                           (''search_terms'', TStr search_text)]), w'))"

text \<open>
  Lines 72 to 104: the whole handler, with the \<^verbatim>\<open>except Exception as error\<close>
  clause that prints a line and renders the error page. The \<^verbatim>\<open>print\<close> and the
  \<^verbatim>\<open>render_template\<close> of that clause are taken to succeed here; \<open>search_io\<close> below
  is the handler without that assumption.
\<close>

definition search ::
  "config \<Rightarrow> (search_call \<Rightarrow> exn + 'r) \<Rightarrow> args \<Rightarrow> world \<Rightarrow> 'r page \<times> world" where
  "search cfg remote a w =
     (case search_body cfg remote a w of
        (Inr page, w') \<Rightarrow> (page, w')
      | (Inl error, w') \<Rightarrow>
          (render_template ''error.html'' [(''error_message'', TStr (str error))],
           w'\<lparr>stdout := stdout w' @ [''Error during search: '' @ str error]\<rparr>))"

subsection \<open>The same code when the outside can fail\<close>


text \<open>
  What an operation raises: an instance of \<^verbatim>\<open>Exception\<close>, or an instance of
  \<^verbatim>\<open>BaseException\<close> outside \<^verbatim>\<open>Exception\<close> (\<^verbatim>\<open>KeyboardInterrupt\<close>,
  \<^verbatim>\<open>SystemExit\<close>), given by its class name and message. The clause
  \<^verbatim>\<open>except Exception\<close> catches the first kind only.
\<close>

datatype raised = IsException exn | BaseOnly (base_class: string) (base_message: string)

text \<open>
  The three operations the code calls outside itself: the client call, which raises or
  returns the result object; running a template on a context, which may raise; writing a
  line to standard output, which may raise.
\<close>

record 'r outside =
  client :: "search_call \<Rightarrow> raised + 'r"
  renders :: "'r page \<Rightarrow> raised option"
  prints :: "string \<Rightarrow> raised option"

text \<open>\<^verbatim>\<open>print(line)\<close>\<close>

definition print_io :: "'r outside \<Rightarrow> string \<Rightarrow> world \<Rightarrow> raised + world" where
  "print_io out line w =
     (case prints out line of
        Some e \<Rightarrow> Inl e
      | None \<Rightarrow> Inr (w\<lparr>stdout := stdout w @ [line]\<rparr>))"

text \<open>\<^verbatim>\<open>render_template(name, **context)\<close>\<close>

definition render_template_io ::
  "'r outside \<Rightarrow> string \<Rightarrow> (string \<times> 'r tvalue) list \<Rightarrow> raised + 'r page" where
  "render_template_io out name ctx =
     (case renders out (render_template name ctx) of
        Some e \<Rightarrow> Inl e
      | None \<Rightarrow> Inr (render_template name ctx))"

text \<open>
  \<^verbatim>\<open>search_query\<close>, lines 23 to 56. An exception outside \<^verbatim>\<open>Exception\<close> passes
  the \<^verbatim>\<open>except\<close> clause; an exception raised by the \<^verbatim>\<open>print\<close> of line 55
  replaces the one being handled.
\<close>

definition search_query_io ::
  "config \<Rightarrow> 'r outside \<Rightarrow> string \<Rightarrow> string option \<Rightarrow> string option \<Rightarrow>
   world \<Rightarrow> (raised + 'r) \<times> world" where
  "search_query_io cfg out search_text filter_by sort_order w =
     (let call = \<lparr>call_endpoint = search_endpoint cfg,
                  call_index = search_index cfg,
                  call_key = search_key cfg,
                  call_search_text = search_text,
                  call_search_mode = ''all'',
                  call_include_total_count = True,
                  call_filter = filter_by,
                  call_order_by = sort_order,
                  call_facets = [''metadata_author''],
                  call_highlight_fields = ''merged_content-3,imageCaption-3'',
                  call_select =
                    ''metadata_storage_name,metadata_author,metadata_storage_size,'' @
                    ''metadata_storage_last_modified,language,merged_content,'' @
                    ''keyphrases,locations,imageTags,imageCaption, sentiment''\<rparr>;
          w1 = w\<lparr>remote_calls := remote_calls w @ [call]\<rparr>
      in case client out call of
           Inr results \<Rightarrow> (Inr results, w1)
         | Inl (BaseOnly c m) \<Rightarrow> (Inl (BaseOnly c m), w1)
         | Inl (IsException ex) \<Rightarrow>
             (case print_io out (''Error querying Azure Search: '' @ str ex) w1 of
                Inl e \<Rightarrow> (Inl e, w1)
              | Inr w2 \<Rightarrow> (Inl (IsException ex), w2)))"

text \<open>Lines 73 to 99: the body of the handler's \<^verbatim>\<open>try\<close> block.\<close>

definition search_body_io ::
  "config \<Rightarrow> 'r outside \<Rightarrow> args \<Rightarrow> world \<Rightarrow> (raised + 'r page) \<times> world" where
  "search_body_io cfg out a w =
     (let search_text = strip (args_get a ''search'' '''')
      in if search_text = []
         then (render_template_io out ''error.html''
                 [(''error_message'', TStr ''Search term cannot be empty.'')], w)
         else
           let filter_expression =
                 (case map_of a ''facet'' of
                    None \<Rightarrow> None
                  | Some facet \<Rightarrow>
                      Some (''metadata_author eq '' @ [apostrophe] @ facet @ [apostrophe]));
               sort_field = args_get a ''sort'' ''relevance'';
               sort_expression =
                 (if sort_field = ''file_name'' then ''metadata_storage_name asc''
                  else if sort_field = ''size'' then ''metadata_storage_size desc''
                  else if sort_field = ''date'' then ''metadata_storage_last_modified desc''
                  else if sort_field = ''sentiment'' then ''sentiment desc''
                  else ''search.score()'')
           in case search_query_io cfg out search_text filter_expression
                     (Some sort_expression) w of
                (Inl e, w') \<Rightarrow> (Inl e, w')
              | (Inr results, w') \<Rightarrow>
                  (render_template_io out ''search.html''
                     [(''search_results'', TResults results),
                      (''search_terms'', TStr search_text)], w'))"

text \<open>
  Lines 72 to 104: the handler. \<open>Inl\<close> is an exception that leaves the handler: one that
  \<^verbatim>\<open>except Exception\<close> does not catch, or one raised by line 103 or line 104, which
  no \<^verbatim>\<open>try\<close> encloses.
\<close>

definition search_io ::
  "config \<Rightarrow> 'r outside \<Rightarrow> args \<Rightarrow> world \<Rightarrow> (raised + 'r page) \<times> world" where
  "search_io cfg out a w =
     (case search_body_io cfg out a w of
        (Inr page, w') \<Rightarrow> (Inr page, w')
      | (Inl (BaseOnly c m), w') \<Rightarrow> (Inl (BaseOnly c m), w')
      | (Inl (IsException error), w') \<Rightarrow>
          (case print_io out (''Error during search: '' @ str error) w' of
             Inl e \<Rightarrow> (Inl e, w')
           | Inr w'' \<Rightarrow>
               (render_template_io out ''error.html''
                  [(''error_message'', TStr (str error))], w'')))"

text \<open>
  The outside under which the first set of definitions is the code: templates render,
  lines are printed, and the client call raises what \<open>remote\<close> raises.
\<close>

definition well_behaved :: "(search_call \<Rightarrow> exn + 'r) \<Rightarrow> 'r outside" where
  "well_behaved remote =
     \<lparr>client = (\<lambda>call. case remote call of Inl ex \<Rightarrow> Inl (IsException ex) | Inr r \<Rightarrow> Inr r),
      renders = (\<lambda>page. None),
      prints = (\<lambda>line. None)\<rparr>"

subsection \<open>Concrete inputs\<close>

text \<open>
  A configuration, a world and two remote services used to run the model: one that returns
  the given result object, one that raises the given exception (its result objects, never
  produced, are numbers).
\<close>

definition example_config :: config where
  "example_config =
     \<lparr>search_endpoint = Some ''https://margies.search.windows.net'',
      search_key = Some ''query-key'',
      search_index = Some ''margies-index''\<rparr>"

definition empty_world :: world where
  "empty_world = \<lparr>remote_calls = [], stdout = []\<rparr>"

definition remote_returning :: "'r \<Rightarrow> search_call \<Rightarrow> exn + 'r" where
  "remote_returning r call = Inr r"

definition remote_raising :: "exn \<Rightarrow> search_call \<Rightarrow> exn + nat" where
  "remote_raising ex call = Inl ex"







section \<open>Properties\<close>

subsection \<open>Auxiliary facts\<close>

lemma dropWhile_all_iff: "(\<forall>x\<in>set (dropWhile P xs). P x) \<longleftrightarrow> (\<forall>x\<in>set xs. P x)"
  by (induction xs) auto

lemma strip_empty_iff: "strip s = [] \<longleftrightarrow> (\<forall>c\<in>set s. py_isspace c)"
  by (simp add: strip_def dropWhile_all_iff)

lemma search_body_empty:
  "strip (args_get a ''search'' '''') = [] \<Longrightarrow>
   search_body cfg remote a w =
     (Inr (render_template ''error.html''
             [(''error_message'', TStr ''Search term cannot be empty.'')]), w)"
  by (simp add: search_body_def)

subsection \<open>Empty search term\<close>

text \<open>
  C1. When the value of the \<^verbatim>\<open>search\<close> parameter is empty or holds only
  whitespace, the handler returns the error page with the message
  "Search term cannot be empty." and leaves the world as it was: no remote call is issued
  (and nothing is printed).
\<close>

theorem search_empty_term:
  assumes "\<forall>c\<in>set (args_get a ''search'' ''''). py_isspace c"
  shows "search cfg remote a w =
           (render_template ''error.html''
              [(''error_message'', TStr ''Search term cannot be empty.'')], w)
         \<and> new_calls w (search cfg remote a w) = []"
  using assms by (simp add: search_def search_body_empty strip_empty_iff new_calls_def)

theorem search_empty_term_witness:
  "list_all py_isspace (args_get [(''search'', ''   '')] ''search'' '''') \<and>
   search example_config (remote_returning (0::nat)) [(''search'', ''   '')] empty_world =
     (render_template ''error.html''
        [(''error_message'', TStr ''Search term cannot be empty.'')], empty_world)"
proof -
  have h: "\<forall>c\<in>set (args_get [(''search'', ''   '')] ''search'' ''''). py_isspace c"
    by (simp add: args_get_def py_isspace_def)
  from search_empty_term [OF h, of example_config "remote_returning (0::nat)" empty_world]
  show ?thesis using h by (simp add: list_all_iff)
qed

subsection \<open>What the handler sends to the gateway\<close>

lemma search_query_new_calls:
  "new_calls w (search_query cfg remote t f s w) =
       [\<lparr>call_endpoint = search_endpoint cfg, call_index = search_index cfg,
         call_key = search_key cfg, call_search_text = t, call_search_mode = ''all'',
         call_include_total_count = True, call_filter = f, call_order_by = s,
         call_facets = [''metadata_author''],
         call_highlight_fields = ''merged_content-3,imageCaption-3'',
         call_select =
           ''metadata_storage_name,metadata_author,metadata_storage_size,metadata_storage_last_modified,language,merged_content,keyphrases,locations,imageTags,imageCaption, sentiment''\<rparr>]"
  by (simp add: search_query_def new_calls_def Let_def split: sum.splits)

lemma snd_case_sum_pair:
  "snd (case p of (Inl ex, w') \<Rightarrow> (Inl ex, w') | (Inr r, w') \<Rightarrow> (Inr (g r), w')) = snd p"
  by (cases p; cases "fst p"; simp)

lemma search_body_nonempty:
  "strip (args_get a ''search'' '''') \<noteq> [] \<Longrightarrow>
   search_body cfg remote a w =
     (case search_query cfg remote (strip (args_get a ''search'' ''''))
             (case map_of a ''facet'' of
                None \<Rightarrow> None
              | Some facet \<Rightarrow> Some (''metadata_author eq '' @ [apostrophe] @ facet @ [apostrophe]))
             (Some (if args_get a ''sort'' ''relevance'' = ''file_name'' then ''metadata_storage_name asc''
                  else if args_get a ''sort'' ''relevance'' = ''size'' then ''metadata_storage_size desc''
                  else if args_get a ''sort'' ''relevance'' = ''date'' then ''metadata_storage_last_modified desc''
                  else if args_get a ''sort'' ''relevance'' = ''sentiment'' then ''sentiment desc''
                  else ''search.score()'')) w of
        (Inl ex, w') \<Rightarrow> (Inl ex, w')
      | (Inr results, w') \<Rightarrow>
          (Inr (render_template ''search.html''
                  [(''search_results'', TResults results),
                   (''search_terms'', TStr (strip (args_get a ''search'' '''')))]), w'))"
  by (simp add: search_body_def Let_def)

lemma search_remote_calls:
  "remote_calls (snd (search cfg remote a w)) = remote_calls (snd (search_body cfg remote a w))"
  by (simp add: search_def split: prod.splits sum.splits)

lemma search_new_calls_body:
  "new_calls w (search cfg remote a w) = new_calls w (search_body cfg remote a w)"
  by (simp add: new_calls_def search_remote_calls)

lemma search_body_snd:
  assumes "strip (args_get a ''search'' '''') \<noteq> []"
  shows "snd (search_body cfg remote a w) =
     snd (search_query cfg remote (strip (args_get a ''search'' ''''))
             (case map_of a ''facet'' of
                None \<Rightarrow> None
              | Some facet \<Rightarrow> Some (''metadata_author eq '' @ [apostrophe] @ facet @ [apostrophe]))
             (Some (if args_get a ''sort'' ''relevance'' = ''file_name'' then ''metadata_storage_name asc''
                  else if args_get a ''sort'' ''relevance'' = ''size'' then ''metadata_storage_size desc''
                  else if args_get a ''sort'' ''relevance'' = ''date'' then ''metadata_storage_last_modified desc''
                  else if args_get a ''sort'' ''relevance'' = ''sentiment'' then ''sentiment desc''
                  else ''search.score()'')) w)"
  by (simp only: search_body_nonempty [OF assms] snd_case_sum_pair)

lemma search_body_new_calls:
  assumes "strip (args_get a ''search'' '''') \<noteq> []"
  shows "new_calls w (search_body cfg remote a w) =
     new_calls w (search_query cfg remote (strip (args_get a ''search'' ''''))
             (case map_of a ''facet'' of
                None \<Rightarrow> None
              | Some facet \<Rightarrow> Some (''metadata_author eq '' @ [apostrophe] @ facet @ [apostrophe]))
             (Some (if args_get a ''sort'' ''relevance'' = ''file_name'' then ''metadata_storage_name asc''
                  else if args_get a ''sort'' ''relevance'' = ''size'' then ''metadata_storage_size desc''
                  else if args_get a ''sort'' ''relevance'' = ''date'' then ''metadata_storage_last_modified desc''
                  else if args_get a ''sort'' ''relevance'' = ''sentiment'' then ''sentiment desc''
                  else ''search.score()'')) w)"
  by (simp only: new_calls_def search_body_snd [OF assms])

lemma strip_paris: "strip ''paris'' = ''paris''"
  by (simp add: strip_def py_isspace_def)

lemma strip_budget: "strip '' budget '' = ''budget''"
  by (simp add: strip_def py_isspace_def)

subsection \<open>Filter expression\<close>

text \<open>
  C2. On a request that reaches the gateway (its search term is not empty after stripping),
  the filter passed is \<^verbatim>\<open>metadata_author eq '<facet value>'\<close> with the raw value of
  the \<^verbatim>\<open>facet\<close> parameter between the apostrophes, nothing escaped, when the
  parameter is present, and \<open>None\<close> when it is absent.
\<close>

theorem search_filter_expression:
  assumes "strip (args_get a ''search'' '''') \<noteq> []"
  shows "map call_filter (new_calls w (search cfg remote a w)) =
           [case map_of a ''facet'' of
              None \<Rightarrow> None
            | Some facet \<Rightarrow> Some (''metadata_author eq '' @ [apostrophe] @ facet @ [apostrophe])]"
  using assms
  by (simp add: search_new_calls_body search_body_new_calls search_query_new_calls)

theorem search_filter_expression_witness:
  "strip (args_get [(''search'', ''paris''), (''facet'', ''O'' @ [apostrophe] @ ''Brien'')]
            ''search'' '''') \<noteq> [] \<and>
   map call_filter
     (new_calls empty_world
        (search example_config (remote_returning (0::nat))
           [(''search'', ''paris''), (''facet'', ''O'' @ [apostrophe] @ ''Brien'')] empty_world)) =
     [Some (''metadata_author eq '' @ [apostrophe] @ ''O'' @ [apostrophe] @ ''Brien'' @ [apostrophe])]"
proof -
  have h: "strip (args_get [(''search'', ''paris''), (''facet'', ''O'' @ [apostrophe] @ ''Brien'')]
                    ''search'' '''') \<noteq> []"
    by (simp add: args_get_def strip_paris)
  from search_filter_expression [OF h, of empty_world example_config "remote_returning (0::nat)"]
  show ?thesis using h by simp
qed

text \<open>
  C9. A \<^verbatim>\<open>facet\<close> parameter that is present with the empty string as its value
  still produces a filter, \<^verbatim>\<open>metadata_author eq ''\<close>: the presence of the key
  decides, not the value.
\<close>

theorem search_empty_facet:
  assumes "strip (args_get a ''search'' '''') \<noteq> []" and "map_of a ''facet'' = Some []"
  shows "map call_filter (new_calls w (search cfg remote a w)) =
           [Some (''metadata_author eq '' @ [apostrophe, apostrophe])]"
  using assms
  by (simp add: search_new_calls_body search_body_new_calls search_query_new_calls)

theorem search_empty_facet_witness:
  "strip (args_get [(''search'', ''paris''), (''facet'', '''')] ''search'' '''') \<noteq> [] \<and>
   map_of [(''search'', ''paris''), (''facet'', '''')] ''facet'' = Some [] \<and>
   map call_filter
     (new_calls empty_world
        (search example_config (remote_returning (0::nat))
           [(''search'', ''paris''), (''facet'', '''')] empty_world)) =
     [Some (''metadata_author eq '' @ [apostrophe, apostrophe])]"
proof -
  have h: "strip (args_get [(''search'', ''paris''), (''facet'', '''')] ''search'' '''') \<noteq> []"
    by (simp add: args_get_def strip_paris)
  have f: "map_of [(''search'', ''paris''), (''facet'', '''')] ''facet'' = Some []"
    by simp
  from search_empty_facet [OF h f, of empty_world example_config "remote_returning (0::nat)"]
  show ?thesis using h f by simp
qed

subsection \<open>Sort expression\<close>

text \<open>
  C3. On a request that reaches the gateway, the sort expression passed follows the table:
  no \<^verbatim>\<open>sort\<close> parameter or \<^verbatim>\<open>relevance\<close> gives
  \<^verbatim>\<open>search.score()\<close>, \<^verbatim>\<open>file_name\<close> gives
  \<^verbatim>\<open>metadata_storage_name asc\<close>, \<^verbatim>\<open>size\<close> gives
  \<^verbatim>\<open>metadata_storage_size desc\<close>, \<^verbatim>\<open>date\<close> gives
  \<^verbatim>\<open>metadata_storage_last_modified desc\<close>, \<^verbatim>\<open>sentiment\<close> gives
  \<^verbatim>\<open>sentiment desc\<close>, and any other value gives \<^verbatim>\<open>search.score()\<close>;
  in every case the gateway is called once, so no value of the parameter is an error.
\<close>

theorem search_sort_expression:
  assumes "strip (args_get a ''search'' '''') \<noteq> []"
  shows "(map_of a ''sort'' = None \<or> map_of a ''sort'' = Some ''relevance'' \<longrightarrow>
            map call_order_by (new_calls w (search cfg remote a w)) = [Some ''search.score()''])
       \<and> (map_of a ''sort'' = Some ''file_name'' \<longrightarrow>
            map call_order_by (new_calls w (search cfg remote a w)) =
              [Some ''metadata_storage_name asc''])
       \<and> (map_of a ''sort'' = Some ''size'' \<longrightarrow>
            map call_order_by (new_calls w (search cfg remote a w)) =
              [Some ''metadata_storage_size desc''])
       \<and> (map_of a ''sort'' = Some ''date'' \<longrightarrow>
            map call_order_by (new_calls w (search cfg remote a w)) =
              [Some ''metadata_storage_last_modified desc''])
       \<and> (map_of a ''sort'' = Some ''sentiment'' \<longrightarrow>
            map call_order_by (new_calls w (search cfg remote a w)) = [Some ''sentiment desc''])
       \<and> (\<forall>v. map_of a ''sort'' = Some v \<and>
              v \<notin> {''relevance'', ''file_name'', ''size'', ''date'', ''sentiment''} \<longrightarrow>
            map call_order_by (new_calls w (search cfg remote a w)) = [Some ''search.score()''])"
  using assms
  by (auto simp add: search_new_calls_body search_body_new_calls search_query_new_calls args_get_def)

theorem search_sort_expression_witness:
  "strip (args_get [(''search'', '' budget ''), (''sort'', ''size'')] ''search'' '''') \<noteq> [] \<and>
   map_of [(''search'', '' budget ''), (''sort'', ''size'')] ''sort'' = Some ''size'' \<and>
   map call_order_by
     (new_calls empty_world
        (search example_config (remote_returning (0::nat))
           [(''search'', '' budget ''), (''sort'', ''size'')] empty_world)) =
     [Some ''metadata_storage_size desc'']"
proof -
  have h: "strip (args_get [(''search'', '' budget ''), (''sort'', ''size'')] ''search'' '''') \<noteq> []"
    by (simp add: args_get_def strip_budget)
  have s: "map_of [(''search'', '' budget ''), (''sort'', ''size'')] ''sort'' = Some ''size''"
    by simp
  from search_sort_expression [OF h, of empty_world example_config "remote_returning (0::nat)"]
  show ?thesis using h s by simp
qed

subsection \<open>Missing search parameter\<close>

text \<open>
  C10. A request without a \<^verbatim>\<open>search\<close> parameter is handled as one whose
  \<^verbatim>\<open>search\<close> parameter is the empty string: the error page with the message
  "Search term cannot be empty." is returned and no remote call is made.
\<close>

theorem search_missing_term:
  assumes "map_of a ''search'' = None"
  shows "search cfg remote a w =
           (render_template ''error.html''
              [(''error_message'', TStr ''Search term cannot be empty.'')], w)
       \<and> search cfg remote a w = search cfg remote ((''search'', '''') # a) w
       \<and> new_calls w (search cfg remote a w) = []"
  using assms
  by (simp add: search_def search_body_empty args_get_def strip_def new_calls_def)

theorem search_missing_term_witness:
  "map_of [(''sort'', ''size'')] ''search'' = None \<and>
   search example_config (remote_returning (0::nat)) [(''sort'', ''size'')] empty_world =
     (render_template ''error.html''
        [(''error_message'', TStr ''Search term cannot be empty.'')], empty_world)"
proof -
  have h: "map_of [(''sort'', ''size'')] ''search'' = None"
    by simp
  from search_missing_term [OF h, of example_config "remote_returning (0::nat)" empty_world]
  show ?thesis using h by simp
qed

subsection \<open>More auxiliary facts\<close>

lemma search_new_calls_empty:
  "strip (args_get a ''search'' '''') = [] \<Longrightarrow> new_calls w (search cfg remote a w) = []"
  by (simp add: search_def search_body_empty new_calls_def)

lemma search_new_calls_config:
  assumes "c \<in> set (new_calls w (search cfg remote a w))"
  shows "call_endpoint c = search_endpoint cfg \<and> call_key c = search_key cfg \<and>
         call_index c = search_index cfg"
proof (cases "strip (args_get a ''search'' '''') = []")
  case True
  with assms show ?thesis
    by (simp add: search_new_calls_empty)
next
  case False
  with assms show ?thesis
    by (simp add: search_new_calls_body search_body_new_calls search_query_new_calls)
qed

subsection \<open>The two sets of definitions agree\<close>

lemma search_query_io_well_behaved:
  "search_query_io cfg (well_behaved remote) t f s w =
     (case search_query cfg remote t f s w of
        (Inl ex, w') \<Rightarrow> (Inl (IsException ex), w')
      | (Inr r, w') \<Rightarrow> (Inr r, w'))"
  by (simp add: search_query_io_def search_query_def well_behaved_def print_io_def Let_def
        split: sum.splits)

lemma render_template_io_well_behaved:
  "render_template_io (well_behaved remote) name ctx = Inr (render_template name ctx)"
  by (simp add: render_template_io_def well_behaved_def)

lemma print_io_well_behaved:
  "print_io (well_behaved remote) line w = Inr (w\<lparr>stdout := stdout w @ [line]\<rparr>)"
  by (simp add: print_io_def well_behaved_def)

lemma search_body_io_nonempty:
  "strip (args_get a ''search'' '''') \<noteq> [] \<Longrightarrow>
   search_body_io cfg out a w =
     (case search_query_io cfg out (strip (args_get a ''search'' ''''))
             (case map_of a ''facet'' of
                None \<Rightarrow> None
              | Some facet \<Rightarrow> Some (''metadata_author eq '' @ [apostrophe] @ facet @ [apostrophe]))
             (Some (if args_get a ''sort'' ''relevance'' = ''file_name'' then ''metadata_storage_name asc''
                  else if args_get a ''sort'' ''relevance'' = ''size'' then ''metadata_storage_size desc''
                  else if args_get a ''sort'' ''relevance'' = ''date'' then ''metadata_storage_last_modified desc''
                  else if args_get a ''sort'' ''relevance'' = ''sentiment'' then ''sentiment desc''
                  else ''search.score()'')) w of
        (Inl e, w') \<Rightarrow> (Inl e, w')
      | (Inr results, w') \<Rightarrow>
          (render_template_io out ''search.html''
             [(''search_results'', TResults results),
              (''search_terms'', TStr (strip (args_get a ''search'' '''')))], w'))"
  by (simp add: search_body_io_def Let_def)

lemma lift_case_sum_pair:
  "(case (case p of (Inl ex, w') \<Rightarrow> (Inl (IsException ex), w') | (Inr r, w') \<Rightarrow> (Inr r, w')) of
      (Inl e, w') \<Rightarrow> (Inl e, w')
    | (Inr results, w') \<Rightarrow> (Inr (g results), w')) =
   (case (case p of (Inl ex, w') \<Rightarrow> (Inl ex, w') | (Inr results, w') \<Rightarrow> (Inr (g results), w')) of
      (Inl ex, w') \<Rightarrow> (Inl (IsException ex), w')
    | (Inr page, w') \<Rightarrow> (Inr page, w'))"
  by (cases p; cases "fst p"; simp)

lemma search_body_io_well_behaved:
  "search_body_io cfg (well_behaved remote) a w =
     (case search_body cfg remote a w of
        (Inl ex, w') \<Rightarrow> (Inl (IsException ex), w')
      | (Inr page, w') \<Rightarrow> (Inr page, w'))"
proof (cases "strip (args_get a ''search'' '''') = []")
  case True
  then show ?thesis
    by (simp add: search_body_io_def search_body_def render_template_io_well_behaved)
next
  case False
  show ?thesis
    by (simp only: search_body_nonempty [OF False] search_body_io_nonempty [OF False]
          search_query_io_well_behaved render_template_io_well_behaved lift_case_sum_pair)
qed

lemma search_io_well_behaved:
  "search_io cfg (well_behaved remote) a w =
     (Inr (fst (search cfg remote a w)), snd (search cfg remote a w))"
proof -
  obtain r w1 where b: "search_body cfg remote a w = (r, w1)"
    by (cases "search_body cfg remote a w")
  show ?thesis
    by (cases r)
      (simp_all add: search_io_def search_def search_body_io_well_behaved b
         print_io_well_behaved render_template_io_well_behaved)
qed

subsection \<open>Runs of the handler when the outside can fail\<close>





subsection \<open>Exceptions and the handler\<close>




subsection \<open>Configuration\<close>

text \<open>
  C5. When one of the three environment variables is unset, the module body raises
  \<^verbatim>\<open>ValueError\<close> and the application does not start. When it does start, the
  three globals hold the values of the environment, each a non-empty string, and so does
  every remote call a request issues: no request sees a missing value.
\<close>

theorem module_init_refuses_missing_config:
  "(getenv ''SEARCH_SERVICE_ENDPOINT'' = None \<or> getenv ''SEARCH_SERVICE_QUERY_KEY'' = None \<or>
    getenv ''SEARCH_INDEX_NAME'' = None \<longrightarrow>
      module_init getenv =
        Inl (Exn ''ValueError'' ''Missing required environment variables in .env file.''))
   \<and> (\<forall>cfg. module_init getenv = Inr cfg \<longrightarrow>
         search_endpoint cfg = getenv ''SEARCH_SERVICE_ENDPOINT'' \<and>
         search_key cfg = getenv ''SEARCH_SERVICE_QUERY_KEY'' \<and>
         search_index cfg = getenv ''SEARCH_INDEX_NAME'' \<and>
         truthy (search_endpoint cfg) \<and> truthy (search_key cfg) \<and> truthy (search_index cfg) \<and>
         (\<forall>c\<in>set (new_calls w (search cfg remote a w)).
            truthy (call_endpoint c) \<and> truthy (call_key c) \<and> truthy (call_index c)))"
proof (intro conjI allI impI)
  assume "getenv ''SEARCH_SERVICE_ENDPOINT'' = None \<or> getenv ''SEARCH_SERVICE_QUERY_KEY'' = None \<or>
    getenv ''SEARCH_INDEX_NAME'' = None"
  then show "module_init getenv =
        Inl (Exn ''ValueError'' ''Missing required environment variables in .env file.'')"
    by (auto simp add: module_init_def truthy_def)
next
  fix cfg
  assume i: "module_init getenv = Inr cfg"
  then have t: "truthy (getenv ''SEARCH_SERVICE_ENDPOINT'') \<and>
      truthy (getenv ''SEARCH_SERVICE_QUERY_KEY'') \<and> truthy (getenv ''SEARCH_INDEX_NAME'')"
    and c: "cfg = \<lparr>search_endpoint = getenv ''SEARCH_SERVICE_ENDPOINT'',
                   search_key = getenv ''SEARCH_SERVICE_QUERY_KEY'',
                   search_index = getenv ''SEARCH_INDEX_NAME''\<rparr>"
    by (simp_all add: module_init_def Let_def split: if_splits)
  show "search_endpoint cfg = getenv ''SEARCH_SERVICE_ENDPOINT''"
    and "search_key cfg = getenv ''SEARCH_SERVICE_QUERY_KEY''"
    and "search_index cfg = getenv ''SEARCH_INDEX_NAME''"
    by (simp_all add: c)
  show te: "truthy (search_endpoint cfg)" and tk: "truthy (search_key cfg)"
    and ti: "truthy (search_index cfg)"
    using t by (simp_all add: c)
  show "\<forall>c\<in>set (new_calls w (search cfg remote a w)).
            truthy (call_endpoint c) \<and> truthy (call_key c) \<and> truthy (call_index c)"
    using te tk ti by (auto dest: search_new_calls_config)
qed

theorem module_init_refuses_missing_config_witness:
  "module_init (map_of [(''SEARCH_SERVICE_ENDPOINT'', ''https://margies.search.windows.net''),
                        (''SEARCH_INDEX_NAME'', ''margies-index'')]) =
     Inl (Exn ''ValueError'' ''Missing required environment variables in .env file.'') \<and>
   module_init (map_of [(''SEARCH_SERVICE_ENDPOINT'', ''https://margies.search.windows.net''),
                        (''SEARCH_SERVICE_QUERY_KEY'', ''query-key''),
                        (''SEARCH_INDEX_NAME'', ''margies-index'')]) = Inr example_config \<and>
   truthy (search_endpoint example_config) \<and> truthy (search_key example_config) \<and>
   truthy (search_index example_config)"
proof -
  let ?partial = "map_of [(''SEARCH_SERVICE_ENDPOINT'', ''https://margies.search.windows.net''),
                          (''SEARCH_INDEX_NAME'', ''margies-index'')]"
  let ?full = "map_of [(''SEARCH_SERVICE_ENDPOINT'', ''https://margies.search.windows.net''),
                       (''SEARCH_SERVICE_QUERY_KEY'', ''query-key''),
                       (''SEARCH_INDEX_NAME'', ''margies-index'')]"
  have missing: "?partial ''SEARCH_SERVICE_QUERY_KEY'' = None"
    by simp
  have started: "module_init ?full = Inr example_config"
    by (simp add: module_init_def example_config_def truthy_def)
  from module_init_refuses_missing_config
         [of ?partial empty_world "remote_returning (0::nat)" "[]"] missing
  have a: "module_init ?partial =
      Inl (Exn ''ValueError'' ''Missing required environment variables in .env file.'')"
    by blast
  from module_init_refuses_missing_config
         [of ?full empty_world "remote_returning (0::nat)" "[]"] started
  have b: "truthy (search_endpoint example_config) \<and> truthy (search_key example_config) \<and>
      truthy (search_index example_config)"
    by blast
  from a started b show ?thesis by blast
qed

subsection \<open>The gateway's remote call\<close>

text \<open>
  C6. One run of \<^verbatim>\<open>search_query\<close> adds exactly one remote call to the world, with
  the fixed arguments: search mode \<^verbatim>\<open>all\<close>, the total count requested, the one
  facet \<^verbatim>\<open>metadata_author\<close>, the highlight fields
  \<^verbatim>\<open>merged_content-3,imageCaption-3\<close> and the fixed list of selected fields; the
  search text, the filter and the sort order are the arguments it was given.
\<close>

theorem search_query_issues_one_fixed_call:
  "remote_calls (snd (search_query cfg remote search_text filter_by sort_order w)) =
     remote_calls w @
       [\<lparr>call_endpoint = search_endpoint cfg,
         call_index = search_index cfg,
         call_key = search_key cfg,
         call_search_text = search_text,
         call_search_mode = ''all'',
         call_include_total_count = True,
         call_filter = filter_by,
         call_order_by = sort_order,
         call_facets = [''metadata_author''],
         call_highlight_fields = ''merged_content-3,imageCaption-3'',
         call_select =
           ''metadata_storage_name,metadata_author,metadata_storage_size,metadata_storage_last_modified,language,merged_content,keyphrases,locations,imageTags,imageCaption, sentiment''\<rparr>]"
  by (simp add: search_query_def Let_def split: sum.splits)




subsection \<open>The translation of the query parameters\<close>

text \<open>
  C8. The search text, filter and sort expression sent to the gateway are determined by the
  query parameters alone: two requests whose parameters look up the same give the same
  three values, whatever the configuration, the remote service and the world they run in.
  Computing them has no effect of its own: the world after the body of the handler is the
  world it started from, or the world after the one gateway call.
\<close>

theorem request_translation_deterministic:
  assumes "map_of a = map_of a'"
  shows "map (\<lambda>c. (call_search_text c, call_filter c, call_order_by c))
           (new_calls w (search cfg remote a w)) =
         map (\<lambda>c. (call_search_text c, call_filter c, call_order_by c))
           (new_calls w' (search cfg' remote' a' w'))
       \<and> (snd (search_body cfg remote a w) = w \<or>
          (\<exists>t f s. snd (search_body cfg remote a w) = snd (search_query cfg remote t f s w)))"
proof -
  from assms have g: "args_get a k d = args_get a' k d" for k d
    by (simp add: args_get_def)
  show ?thesis
  proof (cases "strip (args_get a ''search'' '''') = []")
    case True
    then have "strip (args_get a' ''search'' '''') = []"
      by (simp add: g)
    with True show ?thesis
      by (simp add: search_new_calls_empty search_body_empty)
  next
    case False
    then have f': "strip (args_get a' ''search'' '''') \<noteq> []"
      by (simp add: g)
    have "map (\<lambda>c. (call_search_text c, call_filter c, call_order_by c))
           (new_calls w (search cfg remote a w)) =
         map (\<lambda>c. (call_search_text c, call_filter c, call_order_by c))
           (new_calls w' (search cfg' remote' a' w'))"
      by (simp add: search_new_calls_body search_body_new_calls [OF False]
            search_body_new_calls [OF f'] search_query_new_calls g assms)
    moreover have "\<exists>t f s. snd (search_body cfg remote a w) =
        snd (search_query cfg remote t f s w)"
      by (intro exI) (rule search_body_snd [OF False])
    ultimately show ?thesis by blast
  qed
qed

theorem request_translation_deterministic_witness:
  "map_of [(''search'', ''paris''), (''sort'', ''size''), (''sort'', ''date'')] =
   map_of [(''sort'', ''size''), (''search'', ''paris'')] \<and>
   map (\<lambda>c. (call_search_text c, call_filter c, call_order_by c))
     (new_calls empty_world
        (search example_config (remote_returning (0::nat))
           [(''search'', ''paris''), (''sort'', ''size''), (''sort'', ''date'')] empty_world)) =
   map (\<lambda>c. (call_search_text c, call_filter c, call_order_by c))
     (new_calls \<lparr>remote_calls = [], stdout = [''started'']\<rparr>
        (search \<lparr>search_endpoint = Some ''https://other'', search_key = Some ''k'',
                 search_index = Some ''i''\<rparr>
           (remote_raising (Exn ''ServiceRequestError'' ''timed out''))
           [(''sort'', ''size''), (''search'', ''paris'')]
           \<lparr>remote_calls = [], stdout = [''started'']\<rparr>))"
proof -
  have h: "map_of [(''search'', ''paris''), (''sort'', ''size''), (''sort'', ''date'')] =
           map_of [(''sort'', ''size''), (''search'', ''paris'')]"
    by (rule ext) simp
  from request_translation_deterministic
         [OF h, of empty_world example_config "remote_returning (0::nat)"
            "\<lparr>remote_calls = [], stdout = [''started'']\<rparr>"
            "\<lparr>search_endpoint = Some ''https://other'', search_key = Some ''k'',
              search_index = Some ''i''\<rparr>"
            "remote_raising (Exn ''ServiceRequestError'' ''timed out'')"]
  show ?thesis using h by blast
qed

end
